theory Spec2Isabelle
  imports Complex_Main
begin

section \<open>Valley floor delineation by cost distance (Sechu\_valley\_bottom\_algorithm.py)\<close>

text \<open>
  A shallow embedding of \<^verbatim>\<open>SechuCostDistanceAlgorithm\<close>. Python floats and raster cell
  values are exact reals: rounding of double precision arithmetic is outside the model.
  Temporary raster files are represented by the raster they hold; the file name under
  which the source stores each one is kept in the parameter dictionaries of the calls.
  Progress messages (\<^verbatim>\<open>feedback.pushInfo\<close>) are not recorded.
\<close>

subsection \<open>Rasters, layers, features\<close>

type_synonym path = string

text \<open>A single band raster with its grid geometry; \<open>band1 r y x\<close> is the cell of row
  \<open>y\<close> and column \<open>x\<close>.\<close>

record raster =
  RasterXSize :: nat
  RasterYSize :: nat
  origin :: "real \<times> real"
  resolution :: "real \<times> real"
  band1 :: "nat \<Rightarrow> nat \<Rightarrow> real"

definition grid_geometry :: "raster \<Rightarrow> nat \<times> nat \<times> (real \<times> real) \<times> (real \<times> real)" where
  "grid_geometry r = (RasterXSize r, RasterYSize r, origin r, resolution r)"

text \<open>The part of \<^verbatim>\<open>QgsRasterLayer\<close> the algorithm reads: \<^verbatim>\<open>source()\<close> and the raster
  stored there, \<^verbatim>\<open>extent()\<close> as (xMinimum, xMaximum, yMinimum, yMaximum), the pixel
  sizes and \<^verbatim>\<open>crs().authid()\<close>.\<close>

record raster_layer =
  source :: path
  dataset :: raster
  extent :: "real \<times> real \<times> real \<times> real"
  rasterUnitsPerPixelX :: real
  rasterUnitsPerPixelY :: real
  crs_authid :: string

type_synonym geometry = "(real \<times> real) list list"

record feature =
  geom :: geometry
  attributes :: "int list"

record vector_layer =
  layer_fields :: "string list"
  wkbType :: nat
  sourceCrs :: string
  getFeatures :: "feature list"

record feature_sink =
  sink_fields :: "string list"
  sink_wkbType :: nat
  sink_crs :: string
  added :: "feature list"

subsection \<open>Errors\<close>

text \<open>The source raises \<^verbatim>\<open>QgsProcessingException\<close> with a message; a failing
  \<^verbatim>\<open>processing.run\<close> raises the same class. The other constructors are the Python
  errors of the operations the source performs unguarded.\<close>

datatype error =
    QgsProcessingException string
  | ZeroDivisionError
  | TypeError
  | AttributeError

definition InputError :: error where
  "InputError = QgsProcessingException ''River Network or DEM not valid''"

definition OpenError :: error where
  "OpenError = QgsProcessingException ''Could not open cost or mask raster for reading.''"

text \<open>The message of line 278; its dash (U+2014) is written as its three UTF-8 bytes.\<close>

definition EmptySelectionError :: error where
  "EmptySelectionError = QgsProcessingException
     (''Coarse mask selected 0 pixels '' @ [CHR 0xE2, CHR 0x80, CHR 0x94] @
      '' increase cost threshold.'')"

subsection \<open>Raster calculator expressions\<close>

text \<open>The expression strings the source builds with f-strings, as syntax trees.
  \<open>Band p\<close> is the reference \<^verbatim>\<open>"p@1"\<close>. The raster calculator evaluates an expression at
  every cell; a comparison yields 1 or 0, \<^verbatim>\<open>AND\<close> yields 1 when both operands are non-zero,
  and \<^verbatim>\<open>if(c, a, b)\<close> yields \<open>a\<close> when \<open>c\<close> is non-zero.\<close>

datatype expr =
    Band path
  | Const real
  | Mul expr expr
  | Add expr expr
  | Gt expr expr
  | Le expr expr
  | And expr expr
  | IfE expr expr expr

fun eval_expr :: "(path \<Rightarrow> real) \<Rightarrow> expr \<Rightarrow> real" where
  "eval_expr env (Band p) = env p"
| "eval_expr env (Const c) = c"
| "eval_expr env (Mul a b) = eval_expr env a * eval_expr env b"
| "eval_expr env (Add a b) = eval_expr env a + eval_expr env b"
| "eval_expr env (Gt a b) = (if eval_expr env a > eval_expr env b then 1 else 0)"
| "eval_expr env (Le a b) = (if eval_expr env a \<le> eval_expr env b then 1 else 0)"
| "eval_expr env (And a b) = (if eval_expr env a \<noteq> 0 \<and> eval_expr env b \<noteq> 0 then 1 else 0)"
| "eval_expr env (IfE c a b) = (if eval_expr env c \<noteq> 0 then eval_expr env a else eval_expr env b)"

subsection \<open>Parameter dictionaries of \<^verbatim>\<open>processing.run\<close>\<close>

datatype pv =
    PInt int
  | PNum real
  | PBool bool
  | PStr string
  | PNone
  | PExpr expr
  | PExtent real real real real
  | PPaths "path list"
  | PLayer vector_layer

type_synonym params = "(string \<times> pv) list"

text \<open>\<^verbatim>\<open>qgis:rastercalculator\<close> on the one layer of \<^verbatim>\<open>LAYERS\<close>: the expression is
  evaluated cell by cell on the grid of that layer (the requested \<^verbatim>\<open>CELL_SIZE\<close> and
  \<^verbatim>\<open>EXTENT\<close> are those of the elevation raster throughout the run).\<close>

definition rastercalculator :: "params \<Rightarrow> raster \<Rightarrow> error + raster" where
  "rastercalculator ps r =
     (case map_of ps ''EXPRESSION'' of
        Some (PExpr e) \<Rightarrow> Inr (r\<lparr>band1 := (\<lambda>y x. eval_expr (\<lambda>p. band1 r y x) e)\<rparr>)
      | _ \<Rightarrow> Inl (QgsProcessingException ''Invalid expression''))"

subsection \<open>The external collaborators\<close>

text \<open>Every other algorithm run through \<^verbatim>\<open>processing.run\<close> is a parameter of the model:
  it receives the parameter dictionary and the data its inputs name, and returns its output
  or raises. \<open>gdal_can_open\<close> tells whether \<^verbatim>\<open>gdal.Open\<close> succeeds on a file,
  \<open>sink_creatable\<close> whether \<^verbatim>\<open>parameterAsSink\<close> returns a sink for a destination, and
  \<open>tempFolder\<close> is \<^verbatim>\<open>QgsProcessingUtils.tempFolder()\<close>.\<close>

record backend =
  gdal_slope :: "params \<Rightarrow> raster \<Rightarrow> error + raster"
  gdal_rasterize :: "params \<Rightarrow> vector_layer \<Rightarrow> error + raster"
  grass_r_cost :: "params \<Rightarrow> raster \<Rightarrow> raster \<Rightarrow> error + raster"
  gdal_polygonize :: "params \<Rightarrow> raster \<Rightarrow> error + vector_layer"
  native_extractbyattribute :: "params \<Rightarrow> vector_layer \<Rightarrow> error + vector_layer"
  native_deleteholes :: "params \<Rightarrow> vector_layer \<Rightarrow> error + vector_layer"
  native_smoothgeometry :: "params \<Rightarrow> vector_layer \<Rightarrow> error + vector_layer"
  native_buffer :: "params \<Rightarrow> vector_layer \<Rightarrow> error + vector_layer"
  gdal_can_open :: "path \<Rightarrow> bool"
  sink_creatable :: "string \<Rightarrow> bool"
  tempFolder :: path

subsection \<open>Run state\<close>

text \<open>\<open>calls\<close> lists the \<^verbatim>\<open>processing.run\<close> invocations in order, \<open>polls\<close> counts the
  calls of \<^verbatim>\<open>feedback.isCanceled()\<close> made so far, and \<open>sink\<close> is the output sink once
  \<^verbatim>\<open>parameterAsSink\<close> has created it. The cancellation signal is a function from the
  number of the poll to its answer.\<close>

record run_state =
  calls :: "(string \<times> params) list"
  polls :: nat
  sink :: "feature_sink option"

type_synonym 'a res = "run_state \<times> (error + 'a)"

definition init_state :: run_state where
  "init_state = \<lparr>calls = [], polls = 0, sink = None\<rparr>"

definition bindR :: "'a res \<Rightarrow> (run_state \<Rightarrow> 'a \<Rightarrow> 'b res) \<Rightarrow> 'b res" where
  "bindR m f = (case snd m of Inl e \<Rightarrow> (fst m, Inl e) | Inr v \<Rightarrow> f (fst m) v)"

definition processing_run :: "string \<Rightarrow> params \<Rightarrow> (params \<Rightarrow> error + 'a) \<Rightarrow> run_state \<Rightarrow> 'a res" where
  "processing_run alg ps f s = (s\<lparr>calls := calls s @ [(alg, ps)]\<rparr>, f ps)"

subsection \<open>Parameters (\<^verbatim>\<open>initAlgorithm\<close>, lines 81--126)\<close>

definition PARAM_RIVER :: string where "PARAM_RIVER = ''RIVER''"
definition PARAM_DEM :: string where "PARAM_DEM = ''DEM''"
definition PARAM_COST_THRESHOLD :: string where "PARAM_COST_THRESHOLD = ''COST_THRESHOLD''"
definition PARAM_GAP_FACTOR :: string where "PARAM_GAP_FACTOR = ''GAP_FACTOR''"
definition PARAM_OUTPUT :: string where "PARAM_OUTPUT = ''OUTPUT''"

text \<open>The parameter definitions, in the order they are added; the translated display
  labels are left out.\<close>

datatype parameter_definition =
    QgsProcessingParameterVectorLayer string
  | QgsProcessingParameterRasterLayer string
  | QgsProcessingParameterNumber string real
  | QgsProcessingParameterFeatureSink string

definition initAlgorithm :: "parameter_definition list" where
  "initAlgorithm =
     [QgsProcessingParameterVectorLayer PARAM_RIVER,
      QgsProcessingParameterRasterLayer PARAM_DEM,
      QgsProcessingParameterNumber PARAM_COST_THRESHOLD 1500.0,
      QgsProcessingParameterNumber PARAM_GAP_FACTOR 2.0,
      QgsProcessingParameterFeatureSink PARAM_OUTPUT]"

fun parameter_name :: "parameter_definition \<Rightarrow> string" where
  "parameter_name (QgsProcessingParameterVectorLayer n) = n"
| "parameter_name (QgsProcessingParameterRasterLayer n) = n"
| "parameter_name (QgsProcessingParameterNumber n d) = n"
| "parameter_name (QgsProcessingParameterFeatureSink n) = n"

fun defaultValue :: "parameter_definition list \<Rightarrow> string \<Rightarrow> real option" where
  "defaultValue [] n = None"
| "defaultValue (QgsProcessingParameterNumber m d # ds) n =
     (if m = n then Some d else defaultValue ds n)"
| "defaultValue (d # ds) n = defaultValue ds n"

text \<open>The values a caller supplies, by parameter name. A number the caller leaves out
  takes the default of its definition.\<close>

datatype pvalue =
    VectorLayerValue vector_layer
  | RasterLayerValue raster_layer
  | NumberValue real
  | SinkValue string

definition parameterAsVectorLayer :: "(string \<rightharpoonup> pvalue) \<Rightarrow> string \<Rightarrow> vector_layer option" where
  "parameterAsVectorLayer parameters n =
     (case parameters n of Some (VectorLayerValue l) \<Rightarrow> Some l | _ \<Rightarrow> None)"

definition parameterAsRasterLayer :: "(string \<rightharpoonup> pvalue) \<Rightarrow> string \<Rightarrow> raster_layer option" where
  "parameterAsRasterLayer parameters n =
     (case parameters n of Some (RasterLayerValue l) \<Rightarrow> Some l | _ \<Rightarrow> None)"

definition parameterAsDouble :: "(string \<rightharpoonup> pvalue) \<Rightarrow> string \<Rightarrow> real" where
  "parameterAsDouble parameters n =
     (case parameters n of
        Some (NumberValue v) \<Rightarrow> v
      | _ \<Rightarrow> (case defaultValue initAlgorithm n of Some d \<Rightarrow> d | None \<Rightarrow> 0))"

definition parameterAsSink ::
  "backend \<Rightarrow> (string \<rightharpoonup> pvalue) \<Rightarrow> string \<Rightarrow> string list \<Rightarrow> nat \<Rightarrow> string
     \<Rightarrow> feature_sink option \<times> string" where
  "parameterAsSink B parameters n flds wkb crs =
     (case parameters n of
        Some (SinkValue dest) \<Rightarrow>
          (if sink_creatable B dest
           then Some \<lparr>sink_fields = flds, sink_wkbType = wkb, sink_crs = crs, added = []\<rparr>
           else None, dest)
      | _ \<Rightarrow> (None, []))"

subsection \<open>Temporary files (lines 137--146, 302)\<close>

definition os_path_join :: "path \<Rightarrow> path \<Rightarrow> path" where
  "os_path_join a b = (if a = [] \<or> last a = CHR ''/'' then a @ b else a @ ''/'' @ b)"

definition slope_raster :: "backend \<Rightarrow> path" where
  "slope_raster B = os_path_join (tempFolder B) ''cb_tmp_slope.tif''"

definition cond_slope_raster :: "backend \<Rightarrow> path" where
  "cond_slope_raster B = os_path_join (tempFolder B) ''cb_tmp_slope_cond.tif''"

definition river_raster :: "backend \<Rightarrow> path" where
  "river_raster B = os_path_join (tempFolder B) ''cb_tmp_river.tif''"

definition accum_cost_raster :: "backend \<Rightarrow> path" where
  "accum_cost_raster B = os_path_join (tempFolder B) ''cb_tmp_costdist.tif''"

definition belt_mask_raster :: "backend \<Rightarrow> path" where
  "belt_mask_raster B = os_path_join (tempFolder B) ''cb_tmp_mask_coarse.tif''"

definition refined_mask_raster :: "backend \<Rightarrow> path" where
  "refined_mask_raster B = os_path_join (tempFolder B) ''cb_tmp_mask_refined.tif''"

definition refined_poly :: "backend \<Rightarrow> path" where
  "refined_poly B = os_path_join (tempFolder B) ''cb_refined_poly.gpkg''"

subsection \<open>Slope, friction, seed mask, cost distance (lines 148--236)\<close>

definition slope_params :: "backend \<Rightarrow> raster_layer \<Rightarrow> params" where
  "slope_params B dem_layer =
     [(''INPUT'', PStr (source dem_layer)),
      (''BAND'', PInt 1),
      (''SCALE'', PNum 1.0),
      (''AS_PERCENT'', PBool False),
      (''COMPUTE_EDGES'', PBool True),
      (''ZEVENBERGEN'', PBool False),
      (''OPTIONS'', PStr []),
      (''OUTPUT'', PStr (slope_raster B))]"

text \<open>Line 183: \<^verbatim>\<open>("{slope_raster}@1" * {dem_xres}) + 0.00001\<close>.\<close>

definition friction_expression :: "path \<Rightarrow> real \<Rightarrow> expr" where
  "friction_expression p dem_xres = Add (Mul (Band p) (Const dem_xres)) (Const 0.00001)"

definition cond_slope_params :: "backend \<Rightarrow> raster_layer \<Rightarrow> params" where
  "cond_slope_params B dem_layer =
     (case extent dem_layer of (xmin, xmax, ymin, ymax) \<Rightarrow>
     [(''EXPRESSION'',
         PExpr (friction_expression (slope_raster B) (rasterUnitsPerPixelX dem_layer))),
      (''LAYERS'', PPaths [slope_raster B]),
      (''CELL_SIZE'', PNum (rasterUnitsPerPixelX dem_layer)),
      (''EXTENT'', PExtent xmin xmax ymin ymax),
      (''CRS'', PStr (crs_authid dem_layer)),
      (''OUTPUT'', PStr (cond_slope_raster B))])"

definition rasterize_params :: "backend \<Rightarrow> vector_layer \<Rightarrow> raster_layer \<Rightarrow> params" where
  "rasterize_params B river_layer dem_layer =
     (case extent dem_layer of (xmin, xmax, ymin, ymax) \<Rightarrow>
     [(''INPUT'', PLayer river_layer),
      (''FIELD'', PNone),
      (''BURN'', PInt 1),
      (''USE_Z'', PBool False),
      (''UNITS'', PInt 0),
      (''WIDTH'', PInt \<lceil>(xmax - xmin) / rasterUnitsPerPixelX dem_layer\<rceil>),
      (''HEIGHT'', PInt \<lceil>(ymax - ymin) / rasterUnitsPerPixelY dem_layer\<rceil>),
      (''EXTENT'', PExtent xmin xmax ymin ymax),
      (''NODATA'', PInt 0),
      (''DATA_TYPE'', PInt 5),
      (''INIT'', PInt 0),
      (''INVERT'', PBool False),
      (''OUTPUT'', PStr (river_raster B))])"

definition r_cost_params :: "backend \<Rightarrow> raster_layer \<Rightarrow> params" where
  "r_cost_params B dem_layer =
     (case extent dem_layer of (xmin, xmax, ymin, ymax) \<Rightarrow>
     [(''input'', PStr (cond_slope_raster B)),
      (''start_points'', PNone),
      (''start_raster'', PStr (river_raster B)),
      (''max_cost'', PInt 0),
      (''memory'', PInt 300),
      (''output'', PStr (accum_cost_raster B)),
      (''outdir'', PStr ''TEMPORARY_OUTPUT''),
      (''GRASS_REGION_PARAMETER'', PExtent xmin xmax ymin ymax),
      (''GRASS_REGION_CELLSIZE_PARAMETER'', PNum (rasterUnitsPerPixelX dem_layer)),
      (''GRASS_RASTER_FORMAT_OPT'', PStr []),
      (''GRASS_RASTER_FORMAT_META'', PStr [])])"

text \<open>Lines 157--158 divide by the pixel sizes; a Python float division by zero raises.\<close>

definition cost_surface ::
  "backend \<Rightarrow> vector_layer \<Rightarrow> raster_layer \<Rightarrow> run_state \<Rightarrow> raster res" where
  "cost_surface B river_layer dem_layer s =
     (if rasterUnitsPerPixelX dem_layer = 0 \<or> rasterUnitsPerPixelY dem_layer = 0
      then (s, Inl ZeroDivisionError)
      else
        bindR (processing_run ''gdal:slope'' (slope_params B dem_layer)
                 (\<lambda>ps. gdal_slope B ps (dataset dem_layer)) s) (\<lambda>s slope.
        bindR (processing_run ''qgis:rastercalculator'' (cond_slope_params B dem_layer)
                 (\<lambda>ps. rastercalculator ps slope) s) (\<lambda>s cond_slope.
        bindR (processing_run ''gdal:rasterize'' (rasterize_params B river_layer dem_layer)
                 (\<lambda>ps. gdal_rasterize B ps river_layer) s) (\<lambda>s river.
        processing_run ''grass7:r.cost'' (r_cost_params B dem_layer)
                 (\<lambda>ps. grass_r_cost B ps cond_slope river) s))))"

subsection \<open>Threshold and statistics (lines 238--297)\<close>

text \<open>Lines 243 and 288:
  \<^verbatim>\<open>if(("{accum_cost_raster}@1" > 0) AND ("{accum_cost_raster}@1" <= {t}), 1, 0)\<close>,
  with the cost threshold and then the mean cost for \<open>t\<close>.\<close>

definition mask_expression :: "path \<Rightarrow> real \<Rightarrow> expr" where
  "mask_expression p t =
     IfE (And (Gt (Band p) (Const 0)) (Le (Band p) (Const t))) (Const 1) (Const 0)"

definition mask_params :: "backend \<Rightarrow> raster_layer \<Rightarrow> real \<Rightarrow> path \<Rightarrow> params" where
  "mask_params B dem_layer t out =
     (case extent dem_layer of (xmin, xmax, ymin, ymax) \<Rightarrow>
     [(''EXPRESSION'', PExpr (mask_expression (accum_cost_raster B) t)),
      (''LAYERS'', PPaths [accum_cost_raster B]),
      (''CELL_SIZE'', PNum (rasterUnitsPerPixelX dem_layer)),
      (''EXTENT'', PExtent xmin xmax ymin ymax),
      (''CRS'', PStr (crs_authid dem_layer)),
      (''OUTPUT'', PStr out)])"

text \<open>\<^verbatim>\<open>band.ReadAsArray(xoff, yoff, xsize, ysize)\<close>: the window as a list of rows, or
  \<^verbatim>\<open>None\<close> when the window leaves the raster.\<close>

definition ReadAsArray :: "raster \<Rightarrow> nat \<Rightarrow> nat \<Rightarrow> nat \<Rightarrow> nat \<Rightarrow> real list list option" where
  "ReadAsArray r xoff yoff xsize ysize =
     (if xoff + xsize \<le> RasterXSize r \<and> yoff + ysize \<le> RasterYSize r
      then Some (map (\<lambda>y. map (\<lambda>x. band1 r y x) [xoff..<xoff + xsize]) [yoff..<yoff + ysize])
      else None)"

text \<open>Lines 272--275, the inner loop over the columns of one row.\<close>

definition scan_row :: "real list \<Rightarrow> real list \<Rightarrow> nat \<Rightarrow> real \<times> nat \<Rightarrow> real \<times> nat" where
  "scan_row cost_arr mask_arr cols acc =
     fold (\<lambda>x (tot, count).
             if mask_arr ! x = 1 \<and> cost_arr ! x > 0
             then (tot + cost_arr ! x, count + 1)
             else (tot, count))
          [0..<cols] acc"

text \<open>Lines 267--275, the loop over the rows still to scan. The state is the number of
  polls made, \<^verbatim>\<open>total\<close> (written \<open>tot\<close>) and \<^verbatim>\<open>count\<close>. A cancelled poll breaks the loop; indexing the
  \<^verbatim>\<open>None\<close> of a failed read raises.\<close>

fun pass2 :: "(nat \<Rightarrow> bool) \<Rightarrow> raster \<Rightarrow> raster \<Rightarrow> nat \<Rightarrow> nat list \<Rightarrow> nat \<times> real \<times> nat
                \<Rightarrow> error + (nat \<times> real \<times> nat)" where
  "pass2 isCanceled cost_ds mask_ds cols [] (k, tot, count) = Inr (k, tot, count)"
| "pass2 isCanceled cost_ds mask_ds cols (y # ys) (k, tot, count) =
     (if isCanceled k then Inr (Suc k, tot, count)
      else
        (case ReadAsArray cost_ds 0 y cols 1 of
           None \<Rightarrow> Inl TypeError
         | Some cost_rows \<Rightarrow>
             (case ReadAsArray mask_ds 0 y cols 1 of
                None \<Rightarrow> Inl TypeError
              | Some mask_rows \<Rightarrow>
                  pass2 isCanceled cost_ds mask_ds cols ys
                    (case scan_row (hd cost_rows) (hd mask_rows) cols (tot, count) of
                       (tot', count') \<Rightarrow> (Suc k, tot', count')))))"

definition threshold_engine ::
  "backend \<Rightarrow> (nat \<Rightarrow> bool) \<Rightarrow> raster_layer \<Rightarrow> real \<Rightarrow> raster \<Rightarrow> run_state \<Rightarrow> raster res" where
  "threshold_engine B isCanceled dem_layer cost_threshold accum_cost s =
     bindR (processing_run ''qgis:rastercalculator''
              (mask_params B dem_layer cost_threshold (belt_mask_raster B))
              (\<lambda>ps. rastercalculator ps accum_cost) s) (\<lambda>s belt_mask.
       if \<not> gdal_can_open B (accum_cost_raster B) \<or> \<not> gdal_can_open B (belt_mask_raster B)
       then (s, Inl OpenError)
       else
         (case pass2 isCanceled accum_cost belt_mask (RasterXSize accum_cost)
                 [0..<RasterYSize accum_cost] (polls s, 0, 0) of
            Inl e \<Rightarrow> (s, Inl e)
          | Inr (k, tot, count) \<Rightarrow>
              if count = 0 then (s\<lparr>polls := k\<rparr>, Inl EmptySelectionError)
              else
                processing_run ''qgis:rastercalculator''
                  (mask_params B dem_layer (tot / real count) (refined_mask_raster B))
                  (\<lambda>ps. rastercalculator ps accum_cost) (s\<lparr>polls := k\<rparr>)))"

subsection \<open>Vectorization and cleanup (lines 299--360)\<close>

definition polygonize_params :: "backend \<Rightarrow> params" where
  "polygonize_params B =
     [(''INPUT'', PStr (refined_mask_raster B)),
      (''BAND'', PInt 1),
      (''FIELD'', PStr ''DN''),
      (''EIGHT_CONNECTEDNESS'', PBool False),
      (''OUTPUT'', PStr (refined_poly B))]"

definition extract_params :: "backend \<Rightarrow> params" where
  "extract_params B =
     [(''INPUT'', PStr (refined_poly B)),
      (''FIELD'', PStr ''DN''),
      (''OPERATOR'', PInt 0),
      (''VALUE'', PInt 1),
      (''OUTPUT'', PStr ''memory:'')]"

definition deleteholes_params :: "vector_layer \<Rightarrow> params" where
  "deleteholes_params extracted =
     [(''INPUT'', PLayer extracted),
      (''MIN_AREA'', PInt 0),
      (''OUTPUT'', PStr ''memory:'')]"

definition smooth_params :: "vector_layer \<Rightarrow> params" where
  "smooth_params hole_free =
     [(''INPUT'', PLayer hole_free),
      (''METHOD'', PInt 0),
      (''ITERATIONS'', PInt 3),
      (''OFFSET'', PNum 0.4),
      (''OUTPUT'', PStr ''memory:'')]"

definition vectorize_cleanup :: "backend \<Rightarrow> raster \<Rightarrow> run_state \<Rightarrow> vector_layer res" where
  "vectorize_cleanup B refined_mask s =
     bindR (processing_run ''gdal:polygonize'' (polygonize_params B)
              (\<lambda>ps. gdal_polygonize B ps refined_mask) s) (\<lambda>s polygons.
     bindR (processing_run ''native:extractbyattribute'' (extract_params B)
              (\<lambda>ps. native_extractbyattribute B ps polygons) s) (\<lambda>s extracted.
     bindR (processing_run ''native:deleteholes'' (deleteholes_params extracted)
              (\<lambda>ps. native_deleteholes B ps extracted) s) (\<lambda>s hole_free.
     processing_run ''native:smoothgeometry'' (smooth_params hole_free)
              (\<lambda>ps. native_smoothgeometry B ps hole_free) s)))"

subsection \<open>Gap closing (lines 362--395)\<close>

definition buffer_params :: "vector_layer \<Rightarrow> real \<Rightarrow> params" where
  "buffer_params layer distance =
     [(''INPUT'', PLayer layer),
      (''DISTANCE'', PNum distance),
      (''SEGMENTS'', PInt 8),
      (''END_CAP_STYLE'', PInt 0),
      (''JOIN_STYLE'', PInt 0),
      (''MITER_LIMIT'', PInt 2),
      (''DISSOLVE'', PBool True),
      (''OUTPUT'', PStr ''memory:'')]"

definition close_gaps ::
  "backend \<Rightarrow> real \<Rightarrow> real \<Rightarrow> vector_layer \<Rightarrow> run_state \<Rightarrow> vector_layer res" where
  "close_gaps B dem_xres gap_factor smoothed s =
     (let gap_dist = dem_xres * gap_factor in
      bindR (processing_run ''native:buffer'' (buffer_params smoothed gap_dist)
               (\<lambda>ps. native_buffer B ps smoothed) s) (\<lambda>s buf_out.
      processing_run ''native:buffer'' (buffer_params buf_out (- gap_dist))
               (\<lambda>ps. native_buffer B ps buf_out) s))"

subsection \<open>Writing the output (lines 397--410, 437--439)\<close>

text \<open>Lines 407--410. Each feature is preceded by one poll; a cancelled poll breaks the
  loop. \<^verbatim>\<open>parameterAsSink\<close> may have returned \<^verbatim>\<open>None\<close> for the sink, which the source does
  not test, so that \<^verbatim>\<open>sink.addFeature\<close> raises.\<close>

fun add_features :: "(nat \<Rightarrow> bool) \<Rightarrow> feature list \<Rightarrow> run_state \<Rightarrow> unit res" where
  "add_features isCanceled [] s = (s, Inr ())"
| "add_features isCanceled (f # fs) s =
     (if isCanceled (polls s) then (s\<lparr>polls := Suc (polls s)\<rparr>, Inr ())
      else
        (case sink s of
           None \<Rightarrow> (s\<lparr>polls := Suc (polls s)\<rparr>, Inl AttributeError)
         | Some k \<Rightarrow>
             add_features isCanceled fs
               (s\<lparr>polls := Suc (polls s), sink := Some (k\<lparr>added := added k @ [f]\<rparr>)\<rparr>)))"

definition write_output ::
  "backend \<Rightarrow> (nat \<Rightarrow> bool) \<Rightarrow> (string \<rightharpoonup> pvalue) \<Rightarrow> vector_layer \<Rightarrow> run_state \<Rightarrow> string res" where
  "write_output B isCanceled parameters gaps_closed s =
     (case parameterAsSink B parameters PARAM_OUTPUT
             (layer_fields gaps_closed) (wkbType gaps_closed) (sourceCrs gaps_closed) of
        (snk, dest_id) \<Rightarrow>
          bindR (add_features isCanceled (getFeatures gaps_closed) (s\<lparr>sink := snk\<rparr>))
            (\<lambda>s u. (s, Inr dest_id)))"

subsection \<open>\<^verbatim>\<open>processAlgorithm\<close> (lines 128--439)\<close>

text \<open>The result is the final state and either the error raised or the returned
  destination id. The deletion of the temporary files (lines 412--428), whose failures are
  caught, and the styling of the output layer (lines 430--435) change neither.\<close>

definition processAlgorithm ::
  "backend \<Rightarrow> (nat \<Rightarrow> bool) \<Rightarrow> (string \<rightharpoonup> pvalue) \<Rightarrow> string res" where
  "processAlgorithm B isCanceled parameters =
     (let river_layer = parameterAsVectorLayer parameters PARAM_RIVER;
          dem_layer = parameterAsRasterLayer parameters PARAM_DEM;
          cost_threshold = parameterAsDouble parameters PARAM_COST_THRESHOLD;
          gap_factor = parameterAsDouble parameters PARAM_GAP_FACTOR
      in
        (case (river_layer, dem_layer) of
           (Some river, Some dem) \<Rightarrow>
             bindR (cost_surface B river dem init_state) (\<lambda>s accum_cost.
             bindR (threshold_engine B isCanceled dem cost_threshold accum_cost s) (\<lambda>s refined_mask.
             bindR (vectorize_cleanup B refined_mask s) (\<lambda>s smoothed.
             bindR (close_gaps B (rasterUnitsPerPixelX dem) gap_factor smoothed s) (\<lambda>s gaps_closed.
             write_output B isCanceled parameters gaps_closed s))))
         | _ \<Rightarrow> (init_state, Inl InputError)))"

section \<open>Definitions used to state the properties\<close>

text \<open>The cost values that the statistics pass is specified to accumulate: for the given
  rows in order, and the columns of each row in order, the cost of every cell whose mask
  value is 1 and whose cost is positive.\<close>

definition qualifying :: "raster \<Rightarrow> raster \<Rightarrow> nat \<Rightarrow> nat list \<Rightarrow> real list" where
  "qualifying cost msk cols ys =
     concat (map (\<lambda>y. map (band1 cost y)
                         (filter (\<lambda>x. band1 msk y x = 1 \<and> band1 cost y x > 0) [0..<cols])) ys)"

definition aligned :: "raster \<Rightarrow> raster \<Rightarrow> bool" where
  "aligned a b \<longleftrightarrow> grid_geometry a = grid_geometry b"

subsection \<open>A small scenario\<close>

text \<open>A flat two by two elevation raster with pixel size 10, one stream, and collaborators
  that return fixed rasters. Polygonizing yields one feature per cell carrying the cell
  value as its \<^verbatim>\<open>DN\<close> attribute; extraction keeps the features with \<^verbatim>\<open>DN = 1\<close>; hole
  deletion, smoothing and buffering return their input layer with its attributes.
  \<open>backend_shifted\<close> differs in its seed raster, whose origin is displaced by half a
  pixel; \<open>parameters_tight\<close> sets a cost threshold below every positive cost.\<close>

definition dem0 :: raster_layer where
  "dem0 = \<lparr>source = ''dem.tif'',
           dataset = \<lparr>RasterXSize = 2, RasterYSize = 2, origin = (0, 20), resolution = (10, 10),
                      band1 = (\<lambda>y x. 100)\<rparr>,
           extent = (0, 20, 0, 20),
           rasterUnitsPerPixelX = 10, rasterUnitsPerPixelY = 10,
           crs_authid = ''EPSG:32633''\<rparr>"

definition river0 :: vector_layer where
  "river0 = \<lparr>layer_fields = [], wkbType = 2, sourceCrs = ''EPSG:32633'',
             getFeatures = [\<lparr>geom = [[(0, 15), (20, 15)]], attributes = []\<rparr>]\<rparr>"

definition flat0 :: raster where
  "flat0 = \<lparr>RasterXSize = 2, RasterYSize = 2, origin = (0, 20), resolution = (10, 10),
            band1 = (\<lambda>y x. 0)\<rparr>"

definition seed0 :: raster where
  "seed0 = \<lparr>RasterXSize = 2, RasterYSize = 2, origin = (0, 20), resolution = (10, 10),
            band1 = (\<lambda>y x. if y = 0 \<and> x = 0 then 1 else 0)\<rparr>"

definition seed_shifted :: raster where
  "seed_shifted = \<lparr>RasterXSize = 2, RasterYSize = 2, origin = (5, 25), resolution = (10, 10),
                   band1 = (\<lambda>y x. if y = 0 \<and> x = 0 then 1 else 0)\<rparr>"

definition cost0 :: raster where
  "cost0 = \<lparr>RasterXSize = 2, RasterYSize = 2, origin = (0, 20), resolution = (10, 10),
            band1 = (\<lambda>y x. if y = 0 then (if x = 0 then 0 else 100)
                             else (if x = 0 then 150 else 350))\<rparr>"

definition cells :: "raster \<Rightarrow> (nat \<times> nat) list" where
  "cells r = concat (map (\<lambda>y. map (\<lambda>x. (y, x)) [0..<RasterXSize r]) [0..<RasterYSize r])"

definition backend0 :: backend where
  "backend0 =
     \<lparr>gdal_slope = (\<lambda>ps r. Inr flat0),
      gdal_rasterize = (\<lambda>ps l. Inr seed0),
      grass_r_cost = (\<lambda>ps friction seed. Inr cost0),
      gdal_polygonize =
        (\<lambda>ps r. Inr \<lparr>layer_fields = [''DN''], wkbType = 3, sourceCrs = ''EPSG:32633'',
                      getFeatures = map (\<lambda>(y, x). \<lparr>geom = [[(real x, real y)]],
                                                   attributes = [\<lfloor>band1 r y x\<rfloor>]\<rparr>) (cells r)\<rparr>),
      native_extractbyattribute =
        (\<lambda>ps l. Inr (l\<lparr>getFeatures := filter (\<lambda>f. attributes f = [1]) (getFeatures l)\<rparr>)),
      native_deleteholes = (\<lambda>ps l. Inr l),
      native_smoothgeometry = (\<lambda>ps l. Inr l),
      native_buffer = (\<lambda>ps l. Inr l),
      gdal_can_open = (\<lambda>p. True),
      sink_creatable = (\<lambda>d. True),
      tempFolder = ''/tmp''\<rparr>"

definition backend_shifted :: backend where
  "backend_shifted = backend0\<lparr>gdal_rasterize := (\<lambda>ps l. Inr seed_shifted)\<rparr>"

definition parameters0 :: "string \<rightharpoonup> pvalue" where
  "parameters0 = [PARAM_RIVER \<mapsto> VectorLayerValue river0, PARAM_DEM \<mapsto> RasterLayerValue dem0,
                  PARAM_OUTPUT \<mapsto> SinkValue ''memory:'']"

definition parameters_tight :: "string \<rightharpoonup> pvalue" where
  "parameters_tight = parameters0(PARAM_COST_THRESHOLD \<mapsto> NumberValue 50)"

section \<open>Auxiliary facts\<close>

subsection \<open>Expressions and parameters\<close>

lemma eval_mask_expression:
  "eval_expr env (mask_expression p t) = (if 0 < env p \<and> env p \<le> t then 1 else 0)"
  by (simp add: mask_expression_def)

lemma eval_friction_expression:
  "eval_expr env (friction_expression p dx) = env p * dx + 0.00001"
  by (simp add: friction_expression_def)

lemma rastercalculator_mask:
  "rastercalculator (mask_params B dem t out) r =
     Inr (r\<lparr>band1 := (\<lambda>y x. if 0 < band1 r y x \<and> band1 r y x \<le> t then 1 else 0)\<rparr>)"
  by (simp add: rastercalculator_def mask_params_def eval_mask_expression split: prod.splits)

lemma rastercalculator_friction:
  "rastercalculator (cond_slope_params B dem) r =
     Inr (r\<lparr>band1 := (\<lambda>y x. band1 r y x * rasterUnitsPerPixelX dem + 0.00001)\<rparr>)"
  by (simp add: rastercalculator_def cond_slope_params_def eval_friction_expression split: prod.splits)

lemma default_thr: "parameterAsDouble Map.empty PARAM_COST_THRESHOLD = 1500"
  by (simp add: parameterAsDouble_def initAlgorithm_def PARAM_COST_THRESHOLD_def PARAM_GAP_FACTOR_def
     PARAM_RIVER_def PARAM_DEM_def)

lemma default_gap: "parameterAsDouble Map.empty PARAM_GAP_FACTOR = 2"
  by (simp add: parameterAsDouble_def initAlgorithm_def PARAM_COST_THRESHOLD_def PARAM_GAP_FACTOR_def
     PARAM_RIVER_def PARAM_DEM_def)

lemma PARAM_distinct [simp]:
  "PARAM_RIVER \<noteq> PARAM_DEM" "PARAM_RIVER \<noteq> PARAM_COST_THRESHOLD" "PARAM_RIVER \<noteq> PARAM_GAP_FACTOR"
  "PARAM_RIVER \<noteq> PARAM_OUTPUT" "PARAM_DEM \<noteq> PARAM_COST_THRESHOLD" "PARAM_DEM \<noteq> PARAM_GAP_FACTOR"
  "PARAM_DEM \<noteq> PARAM_OUTPUT" "PARAM_COST_THRESHOLD \<noteq> PARAM_GAP_FACTOR"
  "PARAM_COST_THRESHOLD \<noteq> PARAM_OUTPUT" "PARAM_GAP_FACTOR \<noteq> PARAM_OUTPUT"
  by (simp_all add: PARAM_RIVER_def PARAM_DEM_def PARAM_COST_THRESHOLD_def PARAM_GAP_FACTOR_def
        PARAM_OUTPUT_def)

lemma defaultValue_threshold: "defaultValue initAlgorithm PARAM_COST_THRESHOLD = Some 1500"
  by (simp add: initAlgorithm_def)

lemma defaultValue_gap: "defaultValue initAlgorithm PARAM_GAP_FACTOR = Some 2"
  by (simp add: initAlgorithm_def)

subsection \<open>The statistics scan\<close>


lemma fold_scan:
  assumes "set xs \<subseteq> {..<cols}"
  shows "fold (\<lambda>x (total, count).
             if map (band1 m y) [0..<cols] ! x = 1 \<and> map (band1 cost y) [0..<cols] ! x > 0
             then (total + map (band1 cost y) [0..<cols] ! x, count + 1)
             else (total, count)) xs (t, c)
         = (t + sum_list (map (band1 cost y) (filter (\<lambda>x. band1 m y x = 1 \<and> band1 cost y x > 0) xs)),
            c + length (filter (\<lambda>x. band1 m y x = 1 \<and> band1 cost y x > 0) xs))"
  using assms by (induction xs arbitrary: t c) (auto simp: add.assoc)

lemma scan_row_eq:
  "scan_row (map (band1 cost y) [0..<cols]) (map (band1 m y) [0..<cols]) cols (t, c)
     = (t + sum_list (qualifying cost m cols [y]), c + length (qualifying cost m cols [y]))"
  unfolding scan_row_def qualifying_def
  by (subst fold_scan) auto

lemma qualifying_Cons:
  "qualifying cost m cols (y # ys) = qualifying cost m cols [y] @ qualifying cost m cols ys"
  by (simp add: qualifying_def)


lemma pass2_complete:
  "\<forall>j<length ys. \<not> isC (k + j) \<Longrightarrow> \<forall>y\<in>set ys. y < RasterYSize cost \<and> y < RasterYSize m \<Longrightarrow>
   cols \<le> RasterXSize cost \<Longrightarrow> cols \<le> RasterXSize m \<Longrightarrow>
   pass2 isC cost m cols ys (k, t, c) =
     Inr (k + length ys, t + sum_list (qualifying cost m cols ys),
          c + length (qualifying cost m cols ys))"
proof (induction ys arbitrary: k t c)
  case Nil
  then show ?case by (simp add: qualifying_def)
next
  case (Cons y ys)
  have nc: "\<not> isC k" using Cons.prems(1) by force
  have cr: "ReadAsArray cost 0 y cols 1 = Some [map (band1 cost y) [0..<cols]]"
    using Cons.prems by (simp add: ReadAsArray_def)
  have mr: "ReadAsArray m 0 y cols 1 = Some [map (band1 m y) [0..<cols]]"
    using Cons.prems by (simp add: ReadAsArray_def)
  have "\<forall>j<length ys. \<not> isC (Suc k + j)"
    using Cons.prems(1) by (metis add_Suc_shift length_Cons not_less_eq)
  from Cons.IH[OF this] Cons.prems
  have IH: "\<And>t c. pass2 isC cost m cols ys (Suc k, t, c) =
     Inr (Suc k + length ys, t + sum_list (qualifying cost m cols ys),
          c + length (qualifying cost m cols ys))" by simp
  show ?case
    by (simp add: nc cr mr cr[unfolded One_nat_def] mr[unfolded One_nat_def] scan_row_eq IH
          qualifying_Cons[of _ _ _ y ys] add.assoc)
qed



subsection \<open>Successful stages\<close>

lemma bindR_Inl [simp]: "bindR (s, Inl e) f = (s, Inl e)"
  by (simp add: bindR_def)

lemma bindR_Inr [simp]: "bindR (s, Inr x) f = f s x"
  by (simp add: bindR_def)

lemma bindR_eq_Inr:
  "bindR m f = (s, Inr v) \<longleftrightarrow> (\<exists>s' x. m = (s', Inr x) \<and> f s' x = (s, Inr v))"
  by (cases m; cases "snd m") (auto simp: bindR_def)

lemma processing_run_eq_Inr:
  "processing_run alg ps f s = (s', Inr v) \<longleftrightarrow>
     s' = s\<lparr>calls := calls s @ [(alg, ps)]\<rparr> \<and> f ps = Inr v"
  by (auto simp: processing_run_def)

lemma cost_surface_Inr:
  assumes "cost_surface B river dem s = (s', Inr cost)"
  shows "\<exists>slope friction seed.
           gdal_slope B (slope_params B dem) (dataset dem) = Inr slope \<and>
           rastercalculator (cond_slope_params B dem) slope = Inr friction \<and>
           gdal_rasterize B (rasterize_params B river dem) river = Inr seed \<and>
           grass_r_cost B (r_cost_params B dem) friction seed = Inr cost \<and>
           s' = s\<lparr>calls := calls s @
                   [(''gdal:slope'', slope_params B dem),
                    (''qgis:rastercalculator'', cond_slope_params B dem),
                    (''gdal:rasterize'', rasterize_params B river dem),
                    (''grass7:r.cost'', r_cost_params B dem)]\<rparr>"
  using assms unfolding cost_surface_def
  by (auto simp: bindR_eq_Inr processing_run_eq_Inr split: if_splits)


lemma vectorize_cleanup_Inr:
  assumes "vectorize_cleanup B refined s = (s', Inr smoothed)"
  shows "\<exists>polygons extracted hole_free.
           gdal_polygonize B (polygonize_params B) refined = Inr polygons \<and>
           native_extractbyattribute B (extract_params B) polygons = Inr extracted \<and>
           native_deleteholes B (deleteholes_params extracted) extracted = Inr hole_free \<and>
           native_smoothgeometry B (smooth_params hole_free) hole_free = Inr smoothed \<and>
           s' = s\<lparr>calls := calls s @
                   [(''gdal:polygonize'', polygonize_params B),
                    (''native:extractbyattribute'', extract_params B),
                    (''native:deleteholes'', deleteholes_params extracted),
                    (''native:smoothgeometry'', smooth_params hole_free)]\<rparr>"
  using assms unfolding vectorize_cleanup_def
  by (auto simp: bindR_eq_Inr processing_run_eq_Inr)

lemma close_gaps_Inr:
  assumes "close_gaps B dx gf smoothed s = (s', Inr gaps_closed)"
  shows "\<exists>buf_out.
           native_buffer B (buffer_params smoothed (dx * gf)) smoothed = Inr buf_out \<and>
           native_buffer B (buffer_params buf_out (- (dx * gf))) buf_out = Inr gaps_closed \<and>
           s' = s\<lparr>calls := calls s @
                   [(''native:buffer'', buffer_params smoothed (dx * gf)),
                    (''native:buffer'', buffer_params buf_out (- (dx * gf)))]\<rparr>"
  using assms unfolding close_gaps_def
  by (auto simp: bindR_eq_Inr processing_run_eq_Inr Let_def)

lemma add_features_Inr:
  "add_features isC fs s = (s', Inr u) \<Longrightarrow>
     calls s' = calls s \<and>
     (\<exists>n\<le>length fs. polls s' = polls s + (if n = length fs then n else Suc n) \<and>
        (\<forall>j<n. \<not> isC (polls s + j)) \<and> (n < length fs \<longrightarrow> isC (polls s + n)) \<and>
        (case sink s of
           None \<Rightarrow> n = 0 \<and> sink s' = None
         | Some k \<Rightarrow> sink s' = Some (k\<lparr>added := added k @ take n fs\<rparr>)))"
proof (induction fs arbitrary: s)
  case Nil
  then show ?case by (auto split: option.splits)
next
  case (Cons f fs)
  show ?case
  proof (cases "isC (polls s)")
    case True
    with Cons.prems show ?thesis
      by (intro conjI exI[of _ 0]) (auto split: option.splits)
  next
    case False
    with Cons.prems obtain k where k: "sink s = Some k"
      by (auto split: option.splits)
    let ?s = "s\<lparr>polls := Suc (polls s), sink := Some (k\<lparr>added := added k @ [f]\<rparr>)\<rparr>"
    from Cons.prems False k have "add_features isC fs ?s = (s', Inr u)" by simp
    from Cons.IH[OF this] obtain n where n: "calls s' = calls s" "n \<le> length fs"
      "polls s' = Suc (polls s) + (if n = length fs then n else Suc n)"
      "\<forall>j<n. \<not> isC (Suc (polls s) + j)" "n < length fs \<longrightarrow> isC (Suc (polls s) + n)"
      "sink s' = Some (k\<lparr>added := added k @ f # take n fs\<rparr>)"
      by auto
    have "\<forall>j<Suc n. \<not> isC (polls s + j)"
      using n(4) False by (auto simp: less_Suc_eq_0_disj)
    then show ?thesis using n k
      by (intro conjI exI[of _ "Suc n"]) auto
  qed
qed

lemma write_output_Inr:
  assumes "write_output B isC P gaps_closed s = (s', Inr d)"
  shows "calls s' = calls s \<and>
         d = snd (parameterAsSink B P PARAM_OUTPUT (layer_fields gaps_closed)
                    (wkbType gaps_closed) (sourceCrs gaps_closed)) \<and>
         (\<exists>n\<le>length (getFeatures gaps_closed).
            (case fst (parameterAsSink B P PARAM_OUTPUT (layer_fields gaps_closed)
                    (wkbType gaps_closed) (sourceCrs gaps_closed)) of
               None \<Rightarrow> n = 0 \<and> sink s' = None
             | Some k \<Rightarrow> sink s' = Some (k\<lparr>added := take n (getFeatures gaps_closed)\<rparr>)) \<and>
            (\<forall>j<n. \<not> isC (polls s + j)) \<and>
            (n < length (getFeatures gaps_closed) \<longrightarrow> isC (polls s + n)))"
proof -
  obtain snk dest where p: "parameterAsSink B P PARAM_OUTPUT (layer_fields gaps_closed)
                    (wkbType gaps_closed) (sourceCrs gaps_closed) = (snk, dest)"
    by (cases "parameterAsSink B P PARAM_OUTPUT (layer_fields gaps_closed)
                    (wkbType gaps_closed) (sourceCrs gaps_closed)")
  from assms p obtain s'' u where
    a: "add_features isC (getFeatures gaps_closed) (s\<lparr>sink := snk\<rparr>) = (s'', Inr u)"
    and e: "s' = s''" "d = dest"
    by (auto simp: write_output_def bindR_eq_Inr)
  have added0: "snk = Some k \<Longrightarrow> added k = []" for k
    using p by (auto simp: parameterAsSink_def split: option.splits pvalue.splits if_splits)
  from add_features_Inr[OF a] show ?thesis
    using e p added0 by (auto split: option.splits)
qed

lemma processAlgorithm_Inr:
  assumes "processAlgorithm B isC P = (s, Inr d)"
  shows "\<exists>river dem s1 cost s2 refined s3 smoothed s4 gaps_closed.
           parameterAsVectorLayer P PARAM_RIVER = Some river \<and>
           parameterAsRasterLayer P PARAM_DEM = Some dem \<and>
           cost_surface B river dem init_state = (s1, Inr cost) \<and>
           threshold_engine B isC dem (parameterAsDouble P PARAM_COST_THRESHOLD) cost s1
             = (s2, Inr refined) \<and>
           vectorize_cleanup B refined s2 = (s3, Inr smoothed) \<and>
           close_gaps B (rasterUnitsPerPixelX dem) (parameterAsDouble P PARAM_GAP_FACTOR)
             smoothed s3 = (s4, Inr gaps_closed) \<and>
           write_output B isC P gaps_closed s4 = (s, Inr d)"
  using assms unfolding processAlgorithm_def Let_def
  by (auto simp: bindR_eq_Inr InputError_def split: option.splits)


subsection \<open>The scenario, evaluated\<close>



lemma cost_surface_scenario:
  "cost_surface backend0 river0 dem0 init_state =
     (init_state\<lparr>calls :=
        [(''gdal:slope'', slope_params backend0 dem0),
         (''qgis:rastercalculator'', cond_slope_params backend0 dem0),
         (''gdal:rasterize'', rasterize_params backend0 river0 dem0),
         (''grass7:r.cost'', r_cost_params backend0 dem0)]\<rparr>, Inr cost0)"
  by (simp add: cost_surface_def processing_run_def rastercalculator_friction)
     (simp add: backend0_def dem0_def init_state_def)

lemma parameters_tight_values:
  "parameterAsVectorLayer parameters_tight PARAM_RIVER = Some river0"
  "parameterAsRasterLayer parameters_tight PARAM_DEM = Some dem0"
  "parameterAsDouble parameters_tight PARAM_COST_THRESHOLD = 50"
  by (simp_all add: parameters_tight_def parameters0_def parameterAsVectorLayer_def
        parameterAsRasterLayer_def parameterAsDouble_def)

lemma parameters0_values:
  "parameterAsVectorLayer parameters0 PARAM_RIVER = Some river0"
  "parameterAsRasterLayer parameters0 PARAM_DEM = Some dem0"
  "parameterAsDouble parameters0 PARAM_COST_THRESHOLD = 1500"
  "parameterAsDouble parameters0 PARAM_GAP_FACTOR = 2"
  by (simp_all add: parameters0_def parameterAsVectorLayer_def
        parameterAsRasterLayer_def parameterAsDouble_def defaultValue_threshold defaultValue_gap
        PARAM_distinct[THEN not_sym])

lemma run_scenario_result:
  "snd (processAlgorithm backend0 (\<lambda>k. False) parameters0) = Inr ''memory:''"
  by code_simp

lemma run_scenario:
  "processAlgorithm backend0 (\<lambda>k. False) parameters0 =
     (fst (processAlgorithm backend0 (\<lambda>k. False) parameters0), Inr ''memory:'')"
  using run_scenario_result by (metis prod.collapse)

lemma sink_scenario:
  "sink (fst (processAlgorithm backend0 (\<lambda>k. False) parameters0)) =
     Some \<lparr>sink_fields = [''DN''], sink_wkbType = 3, sink_crs = ''EPSG:32633'',
           added = [\<lparr>geom = [[(1, 0)]], attributes = [1]\<rparr>,
                    \<lparr>geom = [[(0, 1)]], attributes = [1]\<rparr>]\<rparr>"
  by code_simp

lemma parameterAsSink_Some:
  "fst (parameterAsSink B P n flds wkb crs) = Some k \<Longrightarrow>
     k = \<lparr>sink_fields = flds, sink_wkbType = wkb, sink_crs = crs, added = []\<rparr>"
  by (auto simp: parameterAsSink_def split: option.splits pvalue.splits if_splits)

lemma fst_bindR_cases:
  "fst (bindR m f) = (case snd m of Inl e \<Rightarrow> fst m | Inr v \<Rightarrow> fst (f (fst m) v))"
  by (simp add: bindR_def split: sum.splits)

lemma calls_processing_run:
  "calls (fst (processing_run alg ps f s)) = calls s @ [(alg, ps)]"
  by (simp add: processing_run_def)

lemma snd_processing_run: "snd (processing_run alg ps f s) = f ps"
  by (simp add: processing_run_def)

lemma r_cost_calls_cost_surface:
  "filter (\<lambda>c. fst c = ''grass7:r.cost'') (calls (fst (cost_surface B river dem s))) =
     filter (\<lambda>c. fst c = ''grass7:r.cost'') (calls s) \<or>
   filter (\<lambda>c. fst c = ''grass7:r.cost'') (calls (fst (cost_surface B river dem s))) =
     filter (\<lambda>c. fst c = ''grass7:r.cost'') (calls s) @ [(''grass7:r.cost'', r_cost_params B dem)]"
  by (simp add: cost_surface_def fst_bindR_cases calls_processing_run snd_processing_run
        split: sum.splits)

lemma r_cost_calls_threshold_engine:
  "filter (\<lambda>c. fst c = ''grass7:r.cost'') (calls (fst (threshold_engine B isC dem thr cost s))) =
     filter (\<lambda>c. fst c = ''grass7:r.cost'') (calls s)"
  by (simp add: threshold_engine_def fst_bindR_cases calls_processing_run snd_processing_run
        processing_run_def split: sum.splits prod.splits)

lemma r_cost_calls_vectorize_cleanup:
  "filter (\<lambda>c. fst c = ''grass7:r.cost'') (calls (fst (vectorize_cleanup B refined s))) =
     filter (\<lambda>c. fst c = ''grass7:r.cost'') (calls s)"
  by (simp add: vectorize_cleanup_def fst_bindR_cases calls_processing_run snd_processing_run
        split: sum.splits)

lemma r_cost_calls_close_gaps:
  "filter (\<lambda>c. fst c = ''grass7:r.cost'') (calls (fst (close_gaps B dx gf smoothed s))) =
     filter (\<lambda>c. fst c = ''grass7:r.cost'') (calls s)"
  by (simp add: close_gaps_def Let_def fst_bindR_cases calls_processing_run snd_processing_run
        split: sum.splits)

lemma calls_add_features: "calls (fst (add_features isC fs s)) = calls s"
  by (induction fs arbitrary: s) (auto split: option.splits)

lemma calls_write_output: "calls (fst (write_output B isC P gaps_closed s)) = calls s"
  by (simp add: write_output_def fst_bindR_cases calls_add_features split: prod.splits sum.splits)

lemma r_cost_calls_run:
  "filter (\<lambda>c. fst c = ''grass7:r.cost'') (calls (fst (processAlgorithm B isC P))) = [] \<or>
   (\<exists>dem. filter (\<lambda>c. fst c = ''grass7:r.cost'') (calls (fst (processAlgorithm B isC P))) =
           [(''grass7:r.cost'', r_cost_params B dem)])"
proof (cases "parameterAsVectorLayer P PARAM_RIVER")
  case None
  then show ?thesis by (simp add: processAlgorithm_def init_state_def)
next
  case (Some river)
  show ?thesis
  proof (cases "parameterAsRasterLayer P PARAM_DEM")
    case None
    with Some show ?thesis by (simp add: processAlgorithm_def init_state_def)
  next
    case (Some dem)
    have "filter (\<lambda>c. fst c = ''grass7:r.cost'') (calls (fst (processAlgorithm B isC P))) =
          filter (\<lambda>c. fst c = ''grass7:r.cost'') (calls (fst (cost_surface B river dem init_state)))"
      using \<open>parameterAsVectorLayer P PARAM_RIVER = Some river\<close> Some
      by (simp add: processAlgorithm_def fst_bindR_cases r_cost_calls_threshold_engine
            r_cost_calls_vectorize_cleanup r_cost_calls_close_gaps calls_write_output
            split: sum.splits)
    with r_cost_calls_cost_surface[of B river dem init_state] show ?thesis
      by (auto simp: init_state_def)
  qed
qed

lemma r_cost_call_scenario:
  "calls (fst (processAlgorithm backend0 (\<lambda>k. False) parameters0)) ! 3
     = (''grass7:r.cost'', r_cost_params backend0 dem0) \<and>
   length (calls (fst (processAlgorithm backend0 (\<lambda>k. False) parameters0))) = 12"
  by code_simp

section \<open>Properties\<close>

text \<open>C3: the coarse mask is the raster calculator's output for the mask expression
  with the caller's initial cost threshold. At every cell it is 1 if and only if the
  accumulated cost there is strictly positive and at most the threshold, and 0 at every
  other cell; the threshold is the value the caller supplies and 1500 when the caller
  supplies none.\<close>

theorem coarse_mask_cells:
  "(\<exists>m. rastercalculator
          (mask_params B dem (parameterAsDouble P PARAM_COST_THRESHOLD) (belt_mask_raster B))
          accum_cost = Inr m \<and>
        grid_geometry m = grid_geometry accum_cost \<and>
        (\<forall>y x. band1 m y x =
           (if 0 < band1 accum_cost y x
               \<and> band1 accum_cost y x \<le> parameterAsDouble P PARAM_COST_THRESHOLD
            then 1 else 0))) \<and>
   parameterAsDouble (P(PARAM_COST_THRESHOLD \<mapsto> NumberValue v)) PARAM_COST_THRESHOLD = v \<and>
   parameterAsDouble (P(PARAM_COST_THRESHOLD := None)) PARAM_COST_THRESHOLD = 1500"
  by (simp add: rastercalculator_mask grid_geometry_def parameterAsDouble_def defaultValue_threshold)

text \<open>C7: the friction grid is the slope times the pixel size plus the constant 0.00001.
  The slope is an angle, so no cell of it is negative, and the pixel size is not negative;
  then every cell of the friction grid is strictly positive, flat terrain (slope 0)
  included.\<close>

theorem friction_positive:
  assumes "\<forall>y x. 0 \<le> band1 slope y x" and "0 \<le> rasterUnitsPerPixelX dem"
  shows "\<exists>friction. rastercalculator (cond_slope_params B dem) slope = Inr friction \<and>
           (\<forall>y x. band1 friction y x = band1 slope y x * rasterUnitsPerPixelX dem + 0.00001
                  \<and> 0 < band1 friction y x)"
proof -
  have "0 < band1 slope y x * rasterUnitsPerPixelX dem + 0.00001" for y x
  proof -
    have "0 \<le> band1 slope y x * rasterUnitsPerPixelX dem"
      using assms by (simp add: mult_nonneg_nonneg)
    then show ?thesis by simp
  qed
  then show ?thesis by (simp add: rastercalculator_friction)
qed

theorem friction_positive_witness:
  "(\<forall>y x. 0 \<le> band1 flat0 y x) \<and> 0 \<le> rasterUnitsPerPixelX dem0 \<and>
   (\<exists>friction. rastercalculator (cond_slope_params backend0 dem0) flat0 = Inr friction \<and>
      (\<forall>y x. band1 friction y x = 0.00001 \<and> 0 < band1 friction y x))"
proof -
  have h1: "\<forall>y x. 0 \<le> band1 flat0 y x" by (simp add: flat0_def)
  have h2: "0 \<le> rasterUnitsPerPixelX dem0" by (simp add: dem0_def)
  from friction_positive[OF h1 h2, of backend0] h1 h2 show ?thesis
    by (simp add: flat0_def)
qed



text \<open>C2: in a run whose scan is not cancelled and in which at least one cell qualifies,
  the statistics pass ends with the sum and the number of exactly the cost values of the
  cells with coarse mask 1 and positive cost, taken row by row, the mean is their quotient,
  and the refined mask is 1 at a cell if and only if the cost there is strictly positive
  and at most that mean.\<close>

theorem statistics_and_refined_mask:
  assumes opened: "gdal_can_open B (accum_cost_raster B)" "gdal_can_open B (belt_mask_raster B)"
    and not_cancelled: "\<forall>j<RasterYSize accum_cost. \<not> isCanceled (polls s + j)"
    and coarse: "rastercalculator (mask_params B dem cost_threshold (belt_mask_raster B)) accum_cost
                   = Inr coarse"
    and some: "qualifying accum_cost coarse (RasterXSize accum_cost) [0..<RasterYSize accum_cost]
                 \<noteq> []"
  shows "pass2 isCanceled accum_cost coarse (RasterXSize accum_cost) [0..<RasterYSize accum_cost]
             (polls s, 0, 0)
           = Inr (polls s + RasterYSize accum_cost,
                  sum_list (qualifying accum_cost coarse (RasterXSize accum_cost)
                              [0..<RasterYSize accum_cost]),
                  length (qualifying accum_cost coarse (RasterXSize accum_cost)
                              [0..<RasterYSize accum_cost])) \<and>
         (\<exists>refined.
            snd (threshold_engine B isCanceled dem cost_threshold accum_cost s) = Inr refined \<and>
            (\<forall>y x. band1 refined y x =
               (if 0 < band1 accum_cost y x \<and>
                   band1 accum_cost y x
                     \<le> sum_list (qualifying accum_cost coarse (RasterXSize accum_cost)
                                    [0..<RasterYSize accum_cost])
                        / real (length (qualifying accum_cost coarse (RasterXSize accum_cost)
                                    [0..<RasterYSize accum_cost]))
                then 1 else 0)))"
proof -
  let ?Q = "qualifying accum_cost coarse (RasterXSize accum_cost) [0..<RasterYSize accum_cost]"
  have g: "RasterXSize coarse = RasterXSize accum_cost" "RasterYSize coarse = RasterYSize accum_cost"
    using coarse by (auto simp: rastercalculator_mask)
  have p: "pass2 isCanceled accum_cost coarse (RasterXSize accum_cost)
             [0..<RasterYSize accum_cost] (polls s, 0, 0)
           = Inr (polls s + RasterYSize accum_cost, sum_list ?Q, length ?Q)"
    using pass2_complete[of "[0..<RasterYSize accum_cost]" isCanceled "polls s" accum_cost coarse
            "RasterXSize accum_cost" 0 0] not_cancelled g
    by simp
  have n: "length ?Q \<noteq> 0" using some by simp
  have "snd (threshold_engine B isCanceled dem cost_threshold accum_cost s)
          = rastercalculator
              (mask_params B dem (sum_list ?Q / real (length ?Q)) (refined_mask_raster B))
              accum_cost"
    using opened coarse p n
    by (simp add: threshold_engine_def processing_run_def)
  then show ?thesis using p by (simp add: rastercalculator_mask)
qed

theorem statistics_and_refined_mask_witness:
  "gdal_can_open backend0 (accum_cost_raster backend0) \<and>
   gdal_can_open backend0 (belt_mask_raster backend0) \<and>
   (\<forall>j. \<not> (\<lambda>k. False) (polls init_state + j)) \<and>
   pass2 (\<lambda>k. False) cost0
     (cost0\<lparr>band1 := (\<lambda>y x. if 0 < band1 cost0 y x \<and> band1 cost0 y x \<le> 1500 then 1 else 0)\<rparr>)
     (RasterXSize cost0) [0..<RasterYSize cost0] (polls init_state, 0, 0) = Inr (2, 600, 3) \<and>
   (\<exists>refined.
      snd (threshold_engine backend0 (\<lambda>k. False) dem0 1500 cost0 init_state) = Inr refined \<and>
      (\<forall>y x. band1 refined y x =
         (if 0 < band1 cost0 y x \<and> band1 cost0 y x \<le> 200 then 1 else 0)))"
proof -
  let ?coarse = "cost0\<lparr>band1 := (\<lambda>y x. if 0 < band1 cost0 y x \<and> band1 cost0 y x \<le> 1500
                                        then 1 else 0)\<rparr>"
  have o: "gdal_can_open backend0 (accum_cost_raster backend0)"
          "gdal_can_open backend0 (belt_mask_raster backend0)"
    by (simp_all add: backend0_def)
  have nc: "\<forall>j<RasterYSize cost0. \<not> (\<lambda>k. False) (polls init_state + j)" by simp
  have c: "rastercalculator (mask_params backend0 dem0 1500 (belt_mask_raster backend0)) cost0
             = Inr ?coarse"
    by (rule rastercalculator_mask)
  have q: "qualifying cost0 ?coarse (RasterXSize cost0) [0..<RasterYSize cost0] = [100, 150, 350]"
    by (simp add: qualifying_def cost0_def upt_rec)
  have q': "qualifying cost0 ?coarse (RasterXSize cost0) [0..<RasterYSize cost0] \<noteq> []"
    by (simp add: q)
  have d: "RasterYSize cost0 = 2" by (simp add: cost0_def)
  note t = statistics_and_refined_mask[OF o nc c q', unfolded q]
  from t[where s = init_state] o show ?thesis
    by (simp add: init_state_def d)
qed

text \<open>C4: when the statistics pass counts no qualifying cell, the run fails with the
  error of line 278 (the empty selection error), the output sink has not been created, so
  nothing is written, and nothing is tried again: the calls made are the five up to the
  coarse mask, each once, and none follows the failure.\<close>

theorem empty_selection_fails:
  assumes river: "parameterAsVectorLayer parameters PARAM_RIVER = Some river"
    and dem: "parameterAsRasterLayer parameters PARAM_DEM = Some dem"
    and cost: "snd (cost_surface B river dem init_state) = Inr accum_cost"
    and opened: "gdal_can_open B (accum_cost_raster B)" "gdal_can_open B (belt_mask_raster B)"
    and coarse: "rastercalculator
                   (mask_params B dem (parameterAsDouble parameters PARAM_COST_THRESHOLD)
                      (belt_mask_raster B)) accum_cost = Inr coarse"
    and count0: "pass2 isCanceled accum_cost coarse (RasterXSize accum_cost)
                   [0..<RasterYSize accum_cost] (0, 0, 0) = Inr (k, tot, 0)"
  shows "snd (processAlgorithm B isCanceled parameters) = Inl EmptySelectionError \<and>
         sink (fst (processAlgorithm B isCanceled parameters)) = None \<and>
         map fst (calls (fst (processAlgorithm B isCanceled parameters))) =
           [''gdal:slope'', ''qgis:rastercalculator'', ''gdal:rasterize'', ''grass7:r.cost'',
            ''qgis:rastercalculator'']"
proof -
  obtain s1 where cs: "cost_surface B river dem init_state = (s1, Inr accum_cost)"
    using cost by (cases "cost_surface B river dem init_state") auto
  from cost_surface_Inr[OF cs] have s1:
    "s1 = init_state\<lparr>calls := calls init_state @
                   [(''gdal:slope'', slope_params B dem),
                    (''qgis:rastercalculator'', cond_slope_params B dem),
                    (''gdal:rasterize'', rasterize_params B river dem),
                    (''grass7:r.cost'', r_cost_params B dem)]\<rparr>"
    by blast
  have p: "polls s1 = 0" "sink s1 = None" by (simp_all add: s1 init_state_def)
  have te: "threshold_engine B isCanceled dem (parameterAsDouble parameters PARAM_COST_THRESHOLD)
              accum_cost s1
            = (s1\<lparr>calls := calls s1 @
                     [(''qgis:rastercalculator'',
                       mask_params B dem (parameterAsDouble parameters PARAM_COST_THRESHOLD)
                         (belt_mask_raster B))],
                   polls := k\<rparr>, Inl EmptySelectionError)"
    using opened coarse count0 p
    by (simp add: threshold_engine_def processing_run_def)
  have run: "processAlgorithm B isCanceled parameters
            = (s1\<lparr>calls := calls s1 @
                     [(''qgis:rastercalculator'',
                       mask_params B dem (parameterAsDouble parameters PARAM_COST_THRESHOLD)
                         (belt_mask_raster B))],
                   polls := k\<rparr>, Inl EmptySelectionError)"
    by (simp add: processAlgorithm_def river dem cs te)
  show ?thesis
    by (simp add: run p) (simp add: s1 init_state_def)
qed

theorem empty_selection_fails_witness:
  "pass2 (\<lambda>k. False) cost0
     (cost0\<lparr>band1 := (\<lambda>y x. if 0 < band1 cost0 y x \<and> band1 cost0 y x \<le> 50 then 1 else 0)\<rparr>)
     (RasterXSize cost0) [0..<RasterYSize cost0] (0, 0, 0) = Inr (2, 0, 0) \<and>
   snd (processAlgorithm backend0 (\<lambda>k. False) parameters_tight) = Inl EmptySelectionError \<and>
   sink (fst (processAlgorithm backend0 (\<lambda>k. False) parameters_tight)) = None \<and>
   map fst (calls (fst (processAlgorithm backend0 (\<lambda>k. False) parameters_tight))) =
     [''gdal:slope'', ''qgis:rastercalculator'', ''gdal:rasterize'', ''grass7:r.cost'',
      ''qgis:rastercalculator'']"
proof -
  let ?coarse = "cost0\<lparr>band1 := (\<lambda>y x. if 0 < band1 cost0 y x \<and> band1 cost0 y x \<le> 50
                                        then 1 else 0)\<rparr>"
  have cs: "snd (cost_surface backend0 river0 dem0 init_state) = Inr cost0"
    by (simp add: cost_surface_scenario)
  have o: "gdal_can_open backend0 (accum_cost_raster backend0)"
          "gdal_can_open backend0 (belt_mask_raster backend0)"
    by (simp_all add: backend0_def)
  have c: "rastercalculator
             (mask_params backend0 dem0 (parameterAsDouble parameters_tight PARAM_COST_THRESHOLD)
                (belt_mask_raster backend0)) cost0 = Inr ?coarse"
    by (simp add: rastercalculator_mask parameters_tight_values)
  have p: "pass2 (\<lambda>k. False) cost0 ?coarse (RasterXSize cost0) [0..<RasterYSize cost0] (0, 0, 0)
             = Inr (2, 0, 0)"
    by (simp add: cost0_def ReadAsArray_def scan_row_def upt_rec)
  from empty_selection_fails[OF parameters_tight_values(1,2) cs o c p] p show ?thesis
    by simp
qed

text \<open>C5: a run whose cancellation signal is set during the statistics scan is specified to
  stop with no error and no output. Evaluated on the scenario: with the signal set from
  the first poll on, the scan breaks before any row and the run raises the empty selection
  error; with the signal set from the second poll on, the scan breaks after the first row,
  the refined mask is computed from the mean of that row alone (100, where the whole
  raster gives 200), the remaining stages run, the sink is created and the run returns its
  destination; only the writing of features is skipped.\<close>

theorem cancelled_scan_not_clean:
  "snd (processAlgorithm backend0 (\<lambda>k. True) parameters0) = Inl EmptySelectionError \<and>
   snd (processAlgorithm backend0 (\<lambda>k. 1 \<le> k) parameters0) = Inr ''memory:'' \<and>
   calls (fst (processAlgorithm backend0 (\<lambda>k. 1 \<le> k) parameters0)) ! 5 =
     (''qgis:rastercalculator'', mask_params backend0 dem0 100 (refined_mask_raster backend0)) \<and>
   calls (fst (processAlgorithm backend0 (\<lambda>k. False) parameters0)) ! 5 =
     (''qgis:rastercalculator'', mask_params backend0 dem0 200 (refined_mask_raster backend0)) \<and>
   sink (fst (processAlgorithm backend0 (\<lambda>k. 1 \<le> k) parameters0)) =
     Some \<lparr>sink_fields = [''DN''], sink_wkbType = 3, sink_crs = ''EPSG:32633'', added = []\<rparr>"
  by code_simp

text \<open>C6, as stated: geometries of seed mask and friction grid are validated and a mismatch
  fails the run. On the scenario whose seed raster is displaced by half a pixel against
  the friction grid, the run completes and returns its destination.\<close>

theorem misaligned_seed_accepted:
  "gdal_rasterize backend_shifted (rasterize_params backend_shifted river0 dem0) river0
     = Inr seed_shifted \<and>
   rastercalculator (cond_slope_params backend_shifted dem0) flat0
     = Inr (flat0\<lparr>band1 := (\<lambda>y x. 0.00001)\<rparr>) \<and>
   \<not> aligned seed_shifted (flat0\<lparr>band1 := (\<lambda>y x. 0.00001)\<rparr>) \<and>
   snd (processAlgorithm backend_shifted (\<lambda>k. False) parameters0) = Inr ''memory:''"
proof -
  have 1: "gdal_rasterize backend_shifted (rasterize_params backend_shifted river0 dem0) river0
     = Inr seed_shifted" by (simp add: backend_shifted_def)
  have 2: "rastercalculator (cond_slope_params backend_shifted dem0) flat0
     = Inr (flat0\<lparr>band1 := (\<lambda>y x. 0.00001)\<rparr>)"
    by (simp add: rastercalculator_friction flat0_def)
  have 3: "\<not> aligned seed_shifted (flat0\<lparr>band1 := (\<lambda>y x. 0.00001)\<rparr>)"
    by (simp add: aligned_def grid_geometry_def seed_shifted_def flat0_def)
  have 4: "snd (processAlgorithm backend_shifted (\<lambda>k. False) parameters0) = Inr ''memory:''"
    by code_simp
  from 1 2 3 4 show ?thesis by blast
qed

text \<open>C6, amended: the run validates no grid geometry. Once slope, friction grid and seed
  mask have been produced, whatever their geometries, both are handed to the cost distance
  transform as they are, and the outcome of the stage is what the transform returns.\<close>

theorem seed_and_friction_passed_unchecked:
  assumes "rasterUnitsPerPixelX dem \<noteq> 0" and "rasterUnitsPerPixelY dem \<noteq> 0"
    and "gdal_slope B (slope_params B dem) (dataset dem) = Inr slope"
    and "rastercalculator (cond_slope_params B dem) slope = Inr friction"
    and "gdal_rasterize B (rasterize_params B river dem) river = Inr seed"
  shows "cost_surface B river dem s =
           (s\<lparr>calls := calls s @
                 [(''gdal:slope'', slope_params B dem),
                  (''qgis:rastercalculator'', cond_slope_params B dem),
                  (''gdal:rasterize'', rasterize_params B river dem),
                  (''grass7:r.cost'', r_cost_params B dem)]\<rparr>,
            grass_r_cost B (r_cost_params B dem) friction seed)"
  using assms by (simp add: cost_surface_def processing_run_def)

theorem seed_and_friction_passed_unchecked_witness:
  "\<not> aligned seed_shifted (flat0\<lparr>band1 := (\<lambda>y x. 0.00001)\<rparr>) \<and>
   cost_surface backend_shifted river0 dem0 init_state =
     (init_state\<lparr>calls := calls init_state @
          [(''gdal:slope'', slope_params backend_shifted dem0),
           (''qgis:rastercalculator'', cond_slope_params backend_shifted dem0),
           (''gdal:rasterize'', rasterize_params backend_shifted river0 dem0),
           (''grass7:r.cost'', r_cost_params backend_shifted dem0)]\<rparr>,
      grass_r_cost backend_shifted (r_cost_params backend_shifted dem0)
        (flat0\<lparr>band1 := (\<lambda>y x. 0.00001)\<rparr>) seed_shifted)"
proof -
  have x: "rasterUnitsPerPixelX dem0 \<noteq> 0" "rasterUnitsPerPixelY dem0 \<noteq> 0"
    by (simp_all add: dem0_def)
  have 0: "gdal_slope backend_shifted (slope_params backend_shifted dem0) (dataset dem0) = Inr flat0"
    by (simp add: backend_shifted_def backend0_def)
  have 1: "gdal_rasterize backend_shifted (rasterize_params backend_shifted river0 dem0) river0
     = Inr seed_shifted" by (simp add: backend_shifted_def)
  have 2: "rastercalculator (cond_slope_params backend_shifted dem0) flat0
     = Inr (flat0\<lparr>band1 := (\<lambda>y x. 0.00001)\<rparr>)"
    by (simp add: rastercalculator_friction flat0_def)
  have 3: "\<not> aligned seed_shifted (flat0\<lparr>band1 := (\<lambda>y x. 0.00001)\<rparr>)"
    by (simp add: aligned_def grid_geometry_def seed_shifted_def flat0_def)
  from seed_and_friction_passed_unchecked[OF x 0 2 1, of init_state] 3 show ?thesis by blast
qed

text \<open>C8: in every run that returns, the last three calls are the smoothing and two
  buffers. The first buffer takes the smoothed layer with distance pixel size times gap
  factor, the second takes the output of the first with the negated distance; both
  dissolve. The gap factor is 2 when the caller supplies none.\<close>

theorem gap_closing_order:
  assumes "processAlgorithm B isCanceled parameters = (s, Inr dest_id)"
  shows "\<exists>dem hole_free smoothed buf_out gaps_closed pre.
           parameterAsRasterLayer parameters PARAM_DEM = Some dem \<and>
           native_smoothgeometry B (smooth_params hole_free) hole_free = Inr smoothed \<and>
           native_buffer B
             (buffer_params smoothed
                (rasterUnitsPerPixelX dem * parameterAsDouble parameters PARAM_GAP_FACTOR))
             smoothed = Inr buf_out \<and>
           native_buffer B
             (buffer_params buf_out
                (- (rasterUnitsPerPixelX dem * parameterAsDouble parameters PARAM_GAP_FACTOR)))
             buf_out = Inr gaps_closed \<and>
           calls s = pre @
             [(''native:smoothgeometry'', smooth_params hole_free),
              (''native:buffer'',
                 buffer_params smoothed
                   (rasterUnitsPerPixelX dem * parameterAsDouble parameters PARAM_GAP_FACTOR)),
              (''native:buffer'',
                 buffer_params buf_out
                   (- (rasterUnitsPerPixelX dem * parameterAsDouble parameters PARAM_GAP_FACTOR)))] \<and>
           map_of (buffer_params smoothed
                     (rasterUnitsPerPixelX dem * parameterAsDouble parameters PARAM_GAP_FACTOR))
                  ''DISSOLVE'' = Some (PBool True) \<and>
           map_of (buffer_params buf_out
                     (- (rasterUnitsPerPixelX dem * parameterAsDouble parameters PARAM_GAP_FACTOR)))
                  ''DISSOLVE'' = Some (PBool True) \<and>
           parameterAsDouble (parameters(PARAM_GAP_FACTOR := None)) PARAM_GAP_FACTOR = 2"
proof -
  from processAlgorithm_Inr[OF assms] obtain river dem s1 cost s2 refined s3 smoothed s4 gaps_closed
    where dem: "parameterAsRasterLayer parameters PARAM_DEM = Some dem"
      and vc: "vectorize_cleanup B refined s2 = (s3, Inr smoothed)"
      and cg: "close_gaps B (rasterUnitsPerPixelX dem) (parameterAsDouble parameters PARAM_GAP_FACTOR)
                 smoothed s3 = (s4, Inr gaps_closed)"
      and wo: "write_output B isCanceled parameters gaps_closed s4 = (s, Inr dest_id)"
    by blast
  let ?g = "rasterUnitsPerPixelX dem * parameterAsDouble parameters PARAM_GAP_FACTOR"
  from vectorize_cleanup_Inr[OF vc] obtain polygons extracted hole_free where
    sm: "native_smoothgeometry B (smooth_params hole_free) hole_free = Inr smoothed"
    and s3: "s3 = s2\<lparr>calls := calls s2 @
                   [(''gdal:polygonize'', polygonize_params B),
                    (''native:extractbyattribute'', extract_params B),
                    (''native:deleteholes'', deleteholes_params extracted),
                    (''native:smoothgeometry'', smooth_params hole_free)]\<rparr>"
    by blast
  from close_gaps_Inr[OF cg] obtain buf_out where
    b1: "native_buffer B (buffer_params smoothed ?g) smoothed = Inr buf_out"
    and b2: "native_buffer B (buffer_params buf_out (- ?g)) buf_out = Inr gaps_closed"
    and s4: "s4 = s3\<lparr>calls := calls s3 @
                   [(''native:buffer'', buffer_params smoothed ?g),
                    (''native:buffer'', buffer_params buf_out (- ?g))]\<rparr>"
    by blast
  from write_output_Inr[OF wo] have cs: "calls s = calls s4" by blast
  have c: "calls s = (calls s2 @
                   [(''gdal:polygonize'', polygonize_params B),
                    (''native:extractbyattribute'', extract_params B),
                    (''native:deleteholes'', deleteholes_params extracted)]) @
             [(''native:smoothgeometry'', smooth_params hole_free),
              (''native:buffer'', buffer_params smoothed ?g),
              (''native:buffer'', buffer_params buf_out (- ?g))]"
    by (simp add: cs s4 s3)
  have d: "map_of (buffer_params l x) ''DISSOLVE'' = Some (PBool True)" for l x
    by (simp add: buffer_params_def)
  have g: "parameterAsDouble (parameters(PARAM_GAP_FACTOR := None)) PARAM_GAP_FACTOR = 2"
    by (simp add: parameterAsDouble_def defaultValue_gap)
  from dem sm b1 b2 c d g show ?thesis by blast
qed

theorem gap_closing_order_witness:
  "snd (processAlgorithm backend0 (\<lambda>k. False) parameters0) = Inr ''memory:'' \<and>
   (\<exists>hole_free smoothed buf_out gaps_closed pre.
      native_buffer backend0 (buffer_params smoothed 20) smoothed = Inr buf_out \<and>
      native_buffer backend0 (buffer_params buf_out (- 20)) buf_out = Inr gaps_closed \<and>
      calls (fst (processAlgorithm backend0 (\<lambda>k. False) parameters0)) = pre @
        [(''native:smoothgeometry'', smooth_params hole_free),
         (''native:buffer'', buffer_params smoothed 20),
         (''native:buffer'', buffer_params buf_out (- 20))])"
proof -
  have x: "rasterUnitsPerPixelX dem0 = 10" by (simp add: dem0_def)
  from gap_closing_order[OF run_scenario] run_scenario_result show ?thesis
    by (simp add: parameters0_values x) blast
qed

text \<open>C9, as stated: the features written carry no attribute. On the scenario, whose
  collaborators keep the \<^verbatim>\<open>DN\<close> field of the polygonized mask as the native algorithms
  do, the sink has the field \<^verbatim>\<open>DN\<close> and both features written carry the attribute 1.\<close>

theorem sink_features_carry_attribute:
  "sink (fst (processAlgorithm backend0 (\<lambda>k. False) parameters0)) =
     Some \<lparr>sink_fields = [''DN''], sink_wkbType = 3, sink_crs = ''EPSG:32633'',
           added = [\<lparr>geom = [[(1, 0)]], attributes = [1]\<rparr>,
                    \<lparr>geom = [[(0, 1)]], attributes = [1]\<rparr>]\<rparr>"
  by (rule sink_scenario)

text \<open>C9, amended: in every run that returns, the sink is created with the fields, the
  geometry type and the reference system of the gap-closed layer (the output of the inward
  buffer), and the features written are the first \<open>n\<close> features of that layer, unchanged,
  attributes included; all of them when the signal is never set. The run adds no
  attribute and removes none.\<close>

theorem sink_receives_gap_closed_features:
  assumes "processAlgorithm B isCanceled parameters = (s, Inr dest_id)"
  shows "\<exists>buf_out gap_dist gaps_closed n.
           last (calls s) = (''native:buffer'', buffer_params buf_out (- gap_dist)) \<and>
           native_buffer B (buffer_params buf_out (- gap_dist)) buf_out = Inr gaps_closed \<and>
           n \<le> length (getFeatures gaps_closed) \<and>
           ((\<forall>j. \<not> isCanceled j) \<longrightarrow> n = length (getFeatures gaps_closed)) \<and>
           (case sink s of
              None \<Rightarrow> n = 0
            | Some k \<Rightarrow>
                k = \<lparr>sink_fields = layer_fields gaps_closed, sink_wkbType = wkbType gaps_closed,
                     sink_crs = sourceCrs gaps_closed,
                     added = take n (getFeatures gaps_closed)\<rparr>)"
proof -
  from processAlgorithm_Inr[OF assms] obtain river dem s1 cost s2 refined s3 smoothed s4 gaps_closed
    where dem: "parameterAsRasterLayer parameters PARAM_DEM = Some dem"
      and cg: "close_gaps B (rasterUnitsPerPixelX dem) (parameterAsDouble parameters PARAM_GAP_FACTOR)
                 smoothed s3 = (s4, Inr gaps_closed)"
      and wo: "write_output B isCanceled parameters gaps_closed s4 = (s, Inr dest_id)"
    by blast
  let ?g = "rasterUnitsPerPixelX dem * parameterAsDouble parameters PARAM_GAP_FACTOR"
  let ?fs = "getFeatures gaps_closed"
  let ?p = "parameterAsSink B parameters PARAM_OUTPUT (layer_fields gaps_closed)
              (wkbType gaps_closed) (sourceCrs gaps_closed)"
  from close_gaps_Inr[OF cg] obtain buf_out where
    b2: "native_buffer B (buffer_params buf_out (- ?g)) buf_out = Inr gaps_closed"
    and s4: "s4 = s3\<lparr>calls := calls s3 @
                   [(''native:buffer'', buffer_params smoothed ?g),
                    (''native:buffer'', buffer_params buf_out (- ?g))]\<rparr>"
    by blast
  from write_output_Inr[OF wo] obtain n where
    cs: "calls s = calls s4" and n: "n \<le> length ?fs"
    and snk: "case fst ?p of None \<Rightarrow> n = 0 \<and> sink s = None
              | Some k \<Rightarrow> sink s = Some (k\<lparr>added := take n ?fs\<rparr>)"
    and stop: "n < length ?fs \<longrightarrow> isCanceled (polls s4 + n)"
    by blast
  have l: "last (calls s) = (''native:buffer'', buffer_params buf_out (- ?g))"
    by (simp add: cs s4)
  have a: "(\<forall>j. \<not> isCanceled j) \<longrightarrow> n = length ?fs"
    using n stop by auto
  have k: "case sink s of
              None \<Rightarrow> n = 0
            | Some k \<Rightarrow>
                k = \<lparr>sink_fields = layer_fields gaps_closed, sink_wkbType = wkbType gaps_closed,
                     sink_crs = sourceCrs gaps_closed, added = take n ?fs\<rparr>"
  proof (cases "fst ?p")
    case None
    with snk show ?thesis by simp
  next
    case (Some k)
    from parameterAsSink_Some[OF Some] snk Some show ?thesis by simp
  qed
  from l b2 n a k show ?thesis by blast
qed

theorem sink_receives_gap_closed_features_witness:
  "snd (processAlgorithm backend0 (\<lambda>k. False) parameters0) = Inr ''memory:'' \<and>
   (\<exists>buf_out gap_dist gaps_closed.
      last (calls (fst (processAlgorithm backend0 (\<lambda>k. False) parameters0)))
        = (''native:buffer'', buffer_params buf_out (- gap_dist)) \<and>
      native_buffer backend0 (buffer_params buf_out (- gap_dist)) buf_out = Inr gaps_closed \<and>
      layer_fields gaps_closed = [''DN''] \<and>
      getFeatures gaps_closed = [\<lparr>geom = [[(1, 0)]], attributes = [1]\<rparr>,
                                 \<lparr>geom = [[(0, 1)]], attributes = [1]\<rparr>] \<and>
      sink (fst (processAlgorithm backend0 (\<lambda>k. False) parameters0)) =
        Some \<lparr>sink_fields = layer_fields gaps_closed, sink_wkbType = wkbType gaps_closed,
              sink_crs = sourceCrs gaps_closed, added = getFeatures gaps_closed\<rparr>)"
proof -
  from sink_receives_gap_closed_features[OF run_scenario]
  obtain buf_out gap_dist gaps_closed n where
    l: "last (calls (fst (processAlgorithm backend0 (\<lambda>k. False) parameters0)))
          = (''native:buffer'', buffer_params buf_out (- gap_dist))"
    and b: "native_buffer backend0 (buffer_params buf_out (- gap_dist)) buf_out = Inr gaps_closed"
    and n: "n = length (getFeatures gaps_closed)"
    and k: "case sink (fst (processAlgorithm backend0 (\<lambda>k. False) parameters0)) of
              None \<Rightarrow> n = 0
            | Some k \<Rightarrow>
                k = \<lparr>sink_fields = layer_fields gaps_closed, sink_wkbType = wkbType gaps_closed,
                     sink_crs = sourceCrs gaps_closed,
                     added = take n (getFeatures gaps_closed)\<rparr>"
    by auto
  from k n have e: "\<lparr>sink_fields = [''DN''], sink_wkbType = 3, sink_crs = ''EPSG:32633'',
           added = [\<lparr>geom = [[(1, 0)]], attributes = [1]\<rparr>,
                    \<lparr>geom = [[(0, 1)]], attributes = [1]\<rparr>]\<rparr>
         = \<lparr>sink_fields = layer_fields gaps_closed, sink_wkbType = wkbType gaps_closed,
                     sink_crs = sourceCrs gaps_closed, added = getFeatures gaps_closed\<rparr>"
    by (simp add: sink_scenario)
  then have f: "layer_fields gaps_closed = [''DN'']"
    "getFeatures gaps_closed = [\<lparr>geom = [[(1, 0)]], attributes = [1]\<rparr>,
                                 \<lparr>geom = [[(0, 1)]], attributes = [1]\<rparr>]"
    by simp_all
  have s: "sink (fst (processAlgorithm backend0 (\<lambda>k. False) parameters0)) =
        Some \<lparr>sink_fields = layer_fields gaps_closed, sink_wkbType = wkbType gaps_closed,
              sink_crs = sourceCrs gaps_closed, added = getFeatures gaps_closed\<rparr>"
    using e by (simp add: sink_scenario)
  from run_scenario_result l b f s show ?thesis by blast
qed

text \<open>C10: whatever the collaborators, the cancellation signal and the parameters, every
  call of the cost distance transform in the run has maximum cost 0 and memory 300, there
  is at most one such call, and the parameters the algorithm declares are the river, the
  elevation raster, the cost threshold, the gap factor and the output.\<close>

theorem r_cost_fixed_arguments:
  "(\<forall>c\<in>set (calls (fst (processAlgorithm B isCanceled parameters))).
      fst c = ''grass7:r.cost'' \<longrightarrow>
      map_of (snd c) ''max_cost'' = Some (PInt 0) \<and> map_of (snd c) ''memory'' = Some (PInt 300)) \<and>
   length (filter (\<lambda>c. fst c = ''grass7:r.cost'')
             (calls (fst (processAlgorithm B isCanceled parameters)))) \<le> 1 \<and>
   map parameter_name initAlgorithm = [''RIVER'', ''DEM'', ''COST_THRESHOLD'', ''GAP_FACTOR'', ''OUTPUT'']"
proof -
  let ?F = "filter (\<lambda>c. fst c = ''grass7:r.cost'') (calls (fst (processAlgorithm B isCanceled parameters)))"
  have m: "map_of (r_cost_params B dem) ''max_cost'' = Some (PInt 0) \<and>
           map_of (r_cost_params B dem) ''memory'' = Some (PInt 300)" for dem
    by (cases "extent dem") (simp add: r_cost_params_def)
  have a: "map_of (snd c) ''max_cost'' = Some (PInt 0) \<and> map_of (snd c) ''memory'' = Some (PInt 300)"
    if "c \<in> set (calls (fst (processAlgorithm B isCanceled parameters)))" "fst c = ''grass7:r.cost''"
    for c
  proof -
    from that have cF: "c \<in> set ?F" by simp
    consider (none) "?F = []"
      | (one) dem where "?F = [(''grass7:r.cost'', r_cost_params B dem)]"
      using r_cost_calls_run[of B isCanceled parameters] by blast
    then show ?thesis
    proof cases
      case none
      from cF show ?thesis unfolding none by simp
    next
      case one
      from cF have "c = (''grass7:r.cost'', r_cost_params B dem)" unfolding one by simp
      with m show ?thesis by simp
    qed
  qed
  have b: "length ?F \<le> 1" using r_cost_calls_run[of B isCanceled parameters] by auto
  have c: "map parameter_name initAlgorithm = [''RIVER'', ''DEM'', ''COST_THRESHOLD'', ''GAP_FACTOR'', ''OUTPUT'']"
    by (simp add: initAlgorithm_def PARAM_RIVER_def PARAM_DEM_def PARAM_COST_THRESHOLD_def
          PARAM_GAP_FACTOR_def PARAM_OUTPUT_def)
  from a b c show ?thesis by blast
qed

theorem r_cost_fixed_arguments_witness:
  "(''grass7:r.cost'', r_cost_params backend0 dem0)
     \<in> set (calls (fst (processAlgorithm backend0 (\<lambda>k. False) parameters0))) \<and>
   map_of (r_cost_params backend0 dem0) ''max_cost'' = Some (PInt 0) \<and>
   map_of (r_cost_params backend0 dem0) ''memory'' = Some (PInt 300)"
proof -
  have "3 < length (calls (fst (processAlgorithm backend0 (\<lambda>k. False) parameters0)))"
    using r_cost_call_scenario by simp
  from nth_mem[OF this] r_cost_call_scenario
  have i: "(''grass7:r.cost'', r_cost_params backend0 dem0)
     \<in> set (calls (fst (processAlgorithm backend0 (\<lambda>k. False) parameters0)))"
    by simp
  from r_cost_fixed_arguments[of backend0 "\<lambda>k. False" parameters0] i show ?thesis by auto
qed

end
